theory Spec2Isabelle
  imports Main "HOL-Library.AList"
begin

section \<open>The world the script build-doc.py runs in\<close>

text \<open>
  The script has two steps: \<^verbatim>\<open>clean_dir\<close> removes the directory tree
  \<^verbatim>\<open>target/doc\<close> with \<^verbatim>\<open>shutil.rmtree\<close>, and \<^verbatim>\<open>cargo_doc\<close> copies
  \<^verbatim>\<open>os.environ\<close>, sets one variable in the copy and runs
  \<^verbatim>\<open>cargo doc --no-deps\<close> through \<^verbatim>\<open>subprocess.check_call\<close>.
  Everything it does is an effect, so the model is explicit state passing over a
  world: the file tree below the working directory, the store of dictionary objects,
  and the trace of the library calls made so far.

  The functions of the script are \<open>clean_dir\<close>, \<open>cargo_doc\<close> and \<open>main\<close> below.
  What they call belongs to the Python standard library, not to the repository:
  \<^verbatim>\<open>shutil.rmtree\<close>, \<^verbatim>\<open>dict.copy\<close>, item assignment and
  \<^verbatim>\<open>subprocess.check_call\<close> are modelled after their documented behaviour, and
  the command that \<^verbatim>\<open>check_call\<close> runs is a parameter.
\<close>

subsection \<open>Exceptions and control flow\<close>

datatype error =
    FileNotFoundError
  | NotADirectoryError
  | PermissionError
  | SymlinkError           \<comment> \<open>OSError: Cannot call rmtree on a symbolic link\<close>
  | CalledProcessError int \<comment> \<open>carries the return code of the child\<close>

text \<open>
  How a call ends: it returns, it raises, or it never comes back because it waits for
  a child process that never exits.
\<close>

datatype flow = Returned | Raised error | Blocked

subsection \<open>The file tree\<close>

text \<open>
  A node is a regular file with its contents, a symbolic link with the node it
  resolves to (\<open>None\<close> for a dangling link), or a directory. The flag of a
  directory says whether the process may list, search and modify it. A directory
  lists its entries in the order \<^verbatim>\<open>os.scandir\<close> yields them; the first entry
  of a name is the one the name denotes.

  The tree is an abstraction of the disk, and this is its scope. A regular file is
  one the process may open. The access to a directory is all or nothing. A link
  holds its own copy of what it resolves to, so the tree says what a path resolves
  to, but not that two paths name the same directory: what a removal through one
  name does to the other names of a directory is not represented.
\<close>

datatype node =
    File string
  | Symlink "node option"
  | Dir bool "(string \<times> node) list"

text \<open>
  \<^verbatim>\<open>os.lstat\<close> on a relative path, resolved in the node \<open>d\<close>: links in the
  middle of the path are followed, the last component is not.
\<close>

fun lstat :: "node \<Rightarrow> string list \<Rightarrow> error + node" where
  "lstat d [] = Inr d"
| "lstat (File c) (p # ps) = Inl NotADirectoryError"
| "lstat (Symlink None) (p # ps) = Inl FileNotFoundError"
| "lstat (Symlink (Some t)) (p # ps) = lstat t (p # ps)"
| "lstat (Dir a es) (p # ps) =
     (if \<not> a then Inl PermissionError
      else case map_of es p of
             None \<Rightarrow> Inl FileNotFoundError
           | Some c \<Rightarrow> lstat c ps)"

text \<open>
  What a node is once the links are followed to their end, as \<^verbatim>\<open>os.stat\<close> and
  \<^verbatim>\<open>os.open\<close> see it: nothing when a link on the way dangles.
\<close>

fun follow :: "node \<Rightarrow> node option" where
  "follow (Symlink None) = None"
| "follow (Symlink (Some t)) = follow t"
| "follow (File c) = Some (File c)"
| "follow (Dir a es) = Some (Dir a es)"

text \<open>\<^verbatim>\<open>os.path.exists\<close>: the path resolves, links followed to the end.\<close>

definition path_exists :: "node \<Rightarrow> string list \<Rightarrow> bool" where
  "path_exists d ps = (case lstat d ps of Inl e \<Rightarrow> False | Inr n \<Rightarrow> follow n \<noteq> None)"

text \<open>
  What \<^verbatim>\<open>shutil.rmtree\<close> raises on a path that is a symbolic link. After
  \<^verbatim>\<open>os.lstat\<close> it opens the path, which follows the link: a dangling link
  gives \<^verbatim>\<open>FileNotFoundError\<close>, a directory that may not be accessed gives
  \<^verbatim>\<open>PermissionError\<close>. Otherwise what was opened is not what \<^verbatim>\<open>lstat\<close> saw,
  and it raises \<^verbatim>\<open>OSError\<close>, refusing to work on a symbolic link. The argument is
  what the link resolves to.
\<close>

fun link_error :: "node option \<Rightarrow> error" where
  "link_error None = FileNotFoundError"
| "link_error (Some (Dir a es)) = (if a then SymlinkError else PermissionError)"
| "link_error (Some other) = SymlinkError"

text \<open>
  The loop of \<^verbatim>\<open>shutil.rmtree\<close> over the entries of a directory it may modify:
  a subdirectory is emptied and removed, anything else is unlinked, and the first
  error is raised (the default \<^verbatim>\<open>onerror\<close>), leaving what has not been removed
  yet. The result is the entries that remain and the error, if any.
\<close>

fun rmtree_entries :: "(string \<times> node) list \<Rightarrow> (string \<times> node) list \<times> error option" where
  "rmtree_entries [] = ([], None)"
| "rmtree_entries ((n, File c) # es) = rmtree_entries es"
| "rmtree_entries ((n, Symlink t) # es) = rmtree_entries es"
| "rmtree_entries ((n, Dir a cs) # es) =
     (if \<not> a then ((n, Dir a cs) # es, Some PermissionError)
      else case rmtree_entries cs of
             (cs', Some e) \<Rightarrow> ((n, Dir a cs') # es, Some e)
           | (cs', None) \<Rightarrow> rmtree_entries es)"

text \<open>
  \<^verbatim>\<open>shutil.rmtree(path)\<close> for the path \<open>ps @ [name]\<close>, resolved in the node
  \<open>d\<close>. It raises when the path does not resolve, when it is a symbolic link, when
  it is not a directory, and when a directory on the way or below may not be
  accessed. The result is the tree afterwards and the error, if any.
\<close>

fun rmtree :: "string list \<Rightarrow> string \<Rightarrow> node \<Rightarrow> node \<times> error option" where
  "rmtree ps name (File c) = (File c, Some NotADirectoryError)"
| "rmtree ps name (Symlink None) = (Symlink None, Some FileNotFoundError)"
| "rmtree ps name (Symlink (Some t)) =
     (case rmtree ps name t of (t', r) \<Rightarrow> (Symlink (Some t'), r))"
| "rmtree [] name (Dir a es) =
     (if \<not> a then (Dir a es, Some PermissionError)
      else case map_of es name of
             None \<Rightarrow> (Dir a es, Some FileNotFoundError)
           | Some (Symlink t) \<Rightarrow> (Dir a es, Some (link_error (follow (Symlink t))))
           | Some (File c) \<Rightarrow> (Dir a es, Some NotADirectoryError)
           | Some (Dir a' cs) \<Rightarrow>
               (if \<not> a' then (Dir a es, Some PermissionError)
                else case rmtree_entries cs of
                       (cs', Some e) \<Rightarrow> (Dir a (AList.update name (Dir a' cs') es), Some e)
                     | (cs', None) \<Rightarrow> (Dir a (AList.delete name es), None)))"
| "rmtree (p # ps) name (Dir a es) =
     (if \<not> a then (Dir a es, Some PermissionError)
      else case map_of es p of
             None \<Rightarrow> (Dir a es, Some FileNotFoundError)
           | Some c \<Rightarrow>
               (case rmtree ps name c of
                  (c', r) \<Rightarrow> (Dir a (AList.update p c' es), r)))"

subsection \<open>Dictionaries, the child process and the world\<close>

text \<open>
  A dictionary of strings is a map. Dictionaries are objects: a variable holds a
  reference, and two variables may hold the same one, so the world keeps a store
  from references to dictionaries, and \<open>fresh\<close> is the next reference to hand out.
  \<^verbatim>\<open>os.environ\<close> is the object at \<open>os_environ\<close>.
\<close>

type_synonym dict = "string \<rightharpoonup> string"

type_synonym ref = nat

definition os_environ :: ref where
  "os_environ = 0"

text \<open>
  What the script asks of the libraries, in order: a call of \<^verbatim>\<open>shutil.rmtree\<close>
  with its path, a call of \<^verbatim>\<open>subprocess.check_call\<close> with the argument vector, the
  environment handed over and the file tree at that moment, and the exit of the
  child with its return code.
\<close>

datatype event =
    Rmtree "string list"
  | CheckCall "string list" dict node
  | ChildExit int

record world =
  fs :: node
  store :: "ref \<Rightarrow> dict"
  fresh :: ref
  trace :: "event list"

text \<open>
  The external command is not part of the repository: it is a parameter. Given the
  argument vector, its environment and the file tree, either no process starts
  (the executable is not found, say) and an error is raised in the parent, or the
  child exits with a return code and leaves a file tree, or it never exits.
\<close>

datatype child = NotStarted error | Exited int node | Hangs

type_synonym tool = "string list \<Rightarrow> dict \<Rightarrow> node \<Rightarrow> child"

subsection \<open>The library calls\<close>

text \<open>\<^verbatim>\<open>d.copy()\<close>: a new object with the same items.\<close>

definition dict_copy :: "ref \<Rightarrow> world \<Rightarrow> ref \<times> world" where
  "dict_copy r w =
     (fresh w, w\<lparr>store := (store w)(fresh w := store w r), fresh := Suc (fresh w)\<rparr>)"

text \<open>\<^verbatim>\<open>d[k] = v\<close>: the object is updated in place.\<close>

definition dict_setitem :: "ref \<Rightarrow> string \<Rightarrow> string \<Rightarrow> world \<Rightarrow> world" where
  "dict_setitem r k v w = w\<lparr>store := (store w)(r := (store w r)(k \<mapsto> v))\<rparr>"

text \<open>\<^verbatim>\<open>shutil.rmtree(path)\<close> in the working directory.\<close>

definition sh_rmtree :: "string list \<times> string \<Rightarrow> world \<Rightarrow> world \<times> flow" where
  "sh_rmtree path w =
     (case rmtree (fst path) (snd path) (fs w) of
        (t, r) \<Rightarrow>
          (w\<lparr>fs := t, trace := trace w @ [Rmtree (fst path @ [snd path])]\<rparr>,
           case r of None \<Rightarrow> Returned | Some e \<Rightarrow> Raised e))"

text \<open>
  \<^verbatim>\<open>subprocess.check_call(args, env=env)\<close>: start the command with the
  dictionary behind \<open>env\<close> as its whole environment, wait for it to complete, return
  if its return code is zero and raise \<^verbatim>\<open>CalledProcessError\<close> otherwise.
\<close>

definition check_call :: "tool \<Rightarrow> string list \<Rightarrow> ref \<Rightarrow> world \<Rightarrow> world \<times> flow" where
  "check_call run args env w =
     (let called = trace w @ [CheckCall args (store w env) (fs w)] in
      case run args (store w env) (fs w) of
        NotStarted e \<Rightarrow> (w\<lparr>trace := called\<rparr>, Raised e)
      | Hangs \<Rightarrow> (w\<lparr>trace := called\<rparr>, Blocked)
      | Exited rc t \<Rightarrow>
          (w\<lparr>fs := t, trace := called @ [ChildExit rc]\<rparr>,
           if rc = 0 then Returned else Raised (CalledProcessError rc)))"

section \<open>The script\<close>

text \<open>
  \<^verbatim>\<open>Path('target/doc')\<close>, as the components before the last one and the last one.
\<close>

definition rsdoc_dir :: "string list \<times> string" where
  "rsdoc_dir = ([''target''], ''doc'')"

definition clean_dir :: "world \<Rightarrow> world \<times> flow" where
  "clean_dir w = sh_rmtree rsdoc_dir w"

definition cargo_doc :: "tool \<Rightarrow> world \<Rightarrow> world \<times> flow" where
  "cargo_doc run w =
     (case dict_copy os_environ w of
        (env, w1) \<Rightarrow>
          check_call run [''cargo'', ''doc'', ''--no-deps''] env
            (dict_setitem env ''RUSTDOCFLAGS'' ''--html-in-header ./katex.html'' w1))"

text \<open>
  The body under \<^verbatim>\<open>if __name__ == '__main__'\<close>: the second call is made only when
  the first one returns; an exception of either is not caught.
\<close>

definition main :: "tool \<Rightarrow> world \<Rightarrow> world \<times> flow" where
  "main run w =
     (case clean_dir w of
        (w1, Returned) \<Rightarrow> cargo_doc run w1
      | (w1, Raised e) \<Rightarrow> (w1, Raised e)
      | (w1, Blocked) \<Rightarrow> (w1, Blocked))"

text \<open>
  The world at the start of the interpreter: the file tree below the working
  directory, \<^verbatim>\<open>os.environ\<close> holding the environment of the process, nothing
  called yet.
\<close>

definition boot :: "dict \<Rightarrow> node \<Rightarrow> world" where
  "boot environ t = \<lparr>fs = t, store = (\<lambda>r. Map.empty)(os_environ := environ),
     fresh = Suc os_environ, trace = []\<rparr>"

definition script :: "tool \<Rightarrow> dict \<Rightarrow> node \<Rightarrow> world \<times> flow" where
  "script run environ t = main run (boot environ t)"

text \<open>
  The exit status of the interpreter: 0 when the script runs to its end, 1 when an
  exception is not caught, none when it never ends.
\<close>

fun exit_status :: "flow \<Rightarrow> int option" where
  "exit_status Returned = Some 0"
| "exit_status (Raised e) = Some 1"
| "exit_status Blocked = None"

subsection \<open>Reading a trace\<close>

fun is_check_call :: "event \<Rightarrow> bool" where
  "is_check_call (CheckCall args env t) = True"
| "is_check_call ev = False"

text \<open>The environment the child of the script gets from a parent environment.\<close>

definition child_env :: "dict \<Rightarrow> dict" where
  "child_env environ = environ(''RUSTDOCFLAGS'' \<mapsto> ''--html-in-header ./katex.html'')"

text \<open>
  The state invariant of the data model, read on a file tree: \<^verbatim>\<open>target/doc\<close>
  does not exist, or it is a directory with no entry.
\<close>

definition doc_absent_or_empty :: "node \<Rightarrow> bool" where
  "doc_absent_or_empty t =
     (case lstat t [''target'', ''doc''] of
        Inl e \<Rightarrow> e = FileNotFoundError
      | Inr (Dir a es) \<Rightarrow> es = []
      | Inr other \<Rightarrow> False)"

text \<open>How \<^verbatim>\<open>check_call\<close> ends, read from what the child does.\<close>

fun check_call_flow :: "child \<Rightarrow> flow" where
  "check_call_flow (NotStarted e) = Raised e"
| "check_call_flow Hangs = Blocked"
| "check_call_flow (Exited rc t) = (if rc = 0 then Returned else Raised (CalledProcessError rc))"

subsection \<open>Concrete worlds\<close>

text \<open>
  A working directory with the header file and generated documentation, and what
  the removal leaves of it; the same two without the header file; working
  directories where \<^verbatim>\<open>target/doc\<close> does not exist, because nothing was built yet,
  because \<^verbatim>\<open>target\<close> is a regular file, or because \<^verbatim>\<open>target/doc\<close> is a
  dangling link; working directories where \<^verbatim>\<open>target/doc\<close> is a regular file or
  a symbolic link to one; an environment that already sets the flag variable; and
  external commands: one that succeeds, one that fails, one that never exits, and
  one that fails exactly when the header file is not there.
\<close>

definition tree_with_doc :: node where
  "tree_with_doc =
     Dir True
       [(''katex.html'', File ''<script></script>''),
        (''target'', Dir True
           [(''debug'', Dir True []),
            (''doc'', Dir True
               [(''index.html'', File ''old''),
                (''src'', Dir True [(''lib.rs.html'', File ''old'')])])])]"

definition tree_cleaned :: node where
  "tree_cleaned =
     Dir True
       [(''katex.html'', File ''<script></script>''),
        (''target'', Dir True [(''debug'', Dir True [])])]"



definition tree_without_doc :: node where
  "tree_without_doc = Dir True [(''katex.html'', File ''<script></script>'')]"

definition tree_target_is_file :: node where
  "tree_target_is_file = Dir True [(''target'', File ''not a directory'')]"

definition tree_doc_dangling :: node where
  "tree_doc_dangling = Dir True [(''target'', Dir True [(''doc'', Symlink None)])]"

definition tree_doc_is_file :: node where
  "tree_doc_is_file =
     Dir True [(''target'', Dir True [(''doc'', File ''not a directory'')])]"

definition tree_doc_is_link :: node where
  "tree_doc_is_link =
     Dir True
       [(''notes.txt'', File ''text''),
        (''target'', Dir True [(''doc'', Symlink (Some (File ''text'')))])]"

definition some_environ :: dict where
  "some_environ = [''HOME'' \<mapsto> ''/root'', ''RUSTDOCFLAGS'' \<mapsto> ''-D warnings'']"

definition cargo_ok :: tool where
  "cargo_ok args env t = Exited 0 t"

definition cargo_failing :: tool where
  "cargo_failing args env t = Exited 101 t"

definition cargo_hanging :: tool where
  "cargo_hanging args env t = Hangs"


section \<open>Facts about the file tree\<close>

lemma lstat_File_app [simp]: "lstat (File c) (ps @ q # qs) = Inl NotADirectoryError"
  by (cases ps) simp_all

lemma lstat_dangling_app [simp]: "lstat (Symlink None) (ps @ q # qs) = Inl FileNotFoundError"
  by (cases ps) simp_all

lemma lstat_link_app [simp]: "lstat (Symlink (Some t)) (ps @ q # qs) = lstat t (ps @ q # qs)"
  by (cases ps) simp_all

text \<open>When the loop over the entries raises nothing, no entry is left.\<close>

lemma rmtree_entries_done: "rmtree_entries es = (es', None) \<Longrightarrow> es' = []"
  by (induction es arbitrary: es' rule: rmtree_entries.induct)
     (auto split: if_splits prod.splits option.splits)

text \<open>After a removal that raised nothing, no path through the removed one resolves.\<close>

lemma rmtree_gone:
  "rmtree ps name d = (d', None) \<Longrightarrow> lstat d' (ps @ name # qs) = Inl FileNotFoundError"
proof (induction ps name d arbitrary: d' rule: rmtree.induct)
  case (3 ps name t)
  then show ?case by (auto split: prod.splits)
next
  case (4 name a es)
  then show ?case
    by (auto split: if_splits option.splits node.splits prod.splits simp: delete_conv')
next
  case (5 p ps name a es)
  then show ?case
    by (auto split: if_splits option.splits prod.splits simp: update_conv')
qed simp_all

text \<open>A path that does not resolve: the error of the lookup is raised, nothing changes.\<close>

lemma rmtree_lstat_error:
  "lstat d (ps @ [name]) = Inl e \<Longrightarrow> rmtree ps name d = (d, Some e)"
proof (induction ps name d rule: rmtree.induct)
  case (3 ps name t)
  then show ?case by (auto split: prod.splits)
next
  case (5 p ps name a es)
  then show ?case
    by (auto split: if_splits option.splits prod.splits simp: update_triv)
qed (auto split: if_splits option.splits node.splits)

text \<open>A path that resolves to a file or to a link: an error is raised, nothing changes.\<close>

lemma rmtree_file:
  "lstat d (ps @ [name]) = Inr (File c) \<Longrightarrow> rmtree ps name d = (d, Some NotADirectoryError)"
proof (induction ps name d rule: rmtree.induct)
  case (3 ps name t)
  then show ?case by (auto split: prod.splits)
next
  case (5 p ps name a es)
  then show ?case
    by (auto split: if_splits option.splits prod.splits simp: update_triv)
qed (auto split: if_splits option.splits node.splits)

lemma rmtree_link:
  "lstat d (ps @ [name]) = Inr (Symlink l) \<Longrightarrow>
   rmtree ps name d = (d, Some (link_error (follow (Symlink l))))"
proof (induction ps name d rule: rmtree.induct)
  case (3 ps name t)
  then show ?case by (auto split: prod.splits)
next
  case (5 p ps name a es)
  then show ?case
    by (auto split: if_splits option.splits prod.splits simp: update_triv)
qed (auto split: if_splits option.splits node.splits)

text \<open>
  A path that resolves to a directory: the removal raises when the directory may not
  be accessed, and otherwise what the loop over its entries raises.
\<close>

lemma rmtree_dir:
  "lstat d (ps @ [name]) = Inr (Dir a' cs) \<Longrightarrow>
   snd (rmtree ps name d) = (if \<not> a' then Some PermissionError else snd (rmtree_entries cs))"
proof (induction ps name d rule: rmtree.induct)
  case (3 ps name t)
  then show ?case by (auto split: prod.splits)
next
  case (5 p ps name a es)
  then show ?case
    by (auto split: if_splits option.splits prod.splits)
qed (auto split: if_splits option.splits node.splits prod.splits)

section \<open>Facts about the script\<close>

lemma clean_dir_eq:
  "clean_dir w =
     (case rmtree [''target''] ''doc'' (fs w) of
        (t, r) \<Rightarrow>
          (w\<lparr>fs := t, trace := trace w @ [Rmtree [''target'', ''doc'']]\<rparr>,
           case r of None \<Rightarrow> Returned | Some e \<Rightarrow> Raised e))"
  by (simp add: clean_dir_def sh_rmtree_def rsdoc_dir_def)

lemma cargo_doc_eq:
  "cargo_doc run w =
     (let env = child_env (store w os_environ);
          called = trace w @ [CheckCall [''cargo'', ''doc'', ''--no-deps''] env (fs w)];
          w2 = w\<lparr>store := (store w)(fresh w := env), fresh := Suc (fresh w)\<rparr>
      in case run [''cargo'', ''doc'', ''--no-deps''] env (fs w) of
           NotStarted e \<Rightarrow> (w2\<lparr>trace := called\<rparr>, Raised e)
         | Hangs \<Rightarrow> (w2\<lparr>trace := called\<rparr>, Blocked)
         | Exited rc t \<Rightarrow>
             (w2\<lparr>fs := t, trace := called @ [ChildExit rc]\<rparr>,
              if rc = 0 then Returned else Raised (CalledProcessError rc)))"
  by (simp add: cargo_doc_def dict_copy_def dict_setitem_def check_call_def child_env_def Let_def
           split: child.splits)

lemma cargo_doc_trace:
  "trace (fst (cargo_doc run w)) =
     trace w @ CheckCall [''cargo'', ''doc'', ''--no-deps''] (child_env (store w os_environ)) (fs w) #
       (case run [''cargo'', ''doc'', ''--no-deps''] (child_env (store w os_environ)) (fs w) of
          Exited rc t \<Rightarrow> [ChildExit rc] | other \<Rightarrow> [])"
  by (simp add: cargo_doc_eq Let_def split: child.splits)

lemma cargo_doc_flow:
  "snd (cargo_doc run w) =
     check_call_flow (run [''cargo'', ''doc'', ''--no-deps''] (child_env (store w os_environ)) (fs w))"
  by (simp add: cargo_doc_eq Let_def split: child.splits)

lemma cargo_doc_store:
  "store (fst (cargo_doc run w)) = (store w)(fresh w := child_env (store w os_environ))"
  by (simp add: cargo_doc_eq Let_def split: child.splits)

lemma clean_dir_boot:
  "clean_dir (boot environ t0) =
     (case rmtree [''target''] ''doc'' t0 of
        (t1, r) \<Rightarrow>
          ((boot environ t0)\<lparr>fs := t1, trace := [Rmtree [''target'', ''doc'']]\<rparr>,
           case r of None \<Rightarrow> Returned | Some e \<Rightarrow> Raised e))"
  by (simp add: clean_dir_eq boot_def)

lemma script_eq:
  "script run environ t0 =
     (case rmtree [''target''] ''doc'' t0 of
        (t1, Some e) \<Rightarrow>
          ((boot environ t0)\<lparr>fs := t1, trace := [Rmtree [''target'', ''doc'']]\<rparr>, Raised e)
      | (t1, None) \<Rightarrow>
          cargo_doc run ((boot environ t0)\<lparr>fs := t1, trace := [Rmtree [''target'', ''doc'']]\<rparr>))"
  by (simp add: script_def main_def clean_dir_eq boot_def split: prod.splits option.splits)

lemma script_trace:
  "trace (fst (script run environ t0)) =
     (case rmtree [''target''] ''doc'' t0 of
        (t1, Some e) \<Rightarrow> [Rmtree [''target'', ''doc'']]
      | (t1, None) \<Rightarrow>
          Rmtree [''target'', ''doc''] #
          CheckCall [''cargo'', ''doc'', ''--no-deps''] (child_env environ) t1 #
          (case run [''cargo'', ''doc'', ''--no-deps''] (child_env environ) t1 of
             Exited rc t \<Rightarrow> [ChildExit rc] | other \<Rightarrow> []))"
  by (simp add: script_eq cargo_doc_trace boot_def os_environ_def split: prod.splits option.splits)

lemma script_flow:
  "snd (script run environ t0) =
     (case rmtree [''target''] ''doc'' t0 of
        (t1, Some e) \<Rightarrow> Raised e
      | (t1, None) \<Rightarrow>
          check_call_flow (run [''cargo'', ''doc'', ''--no-deps''] (child_env environ) t1))"
  by (simp add: script_eq cargo_doc_flow boot_def os_environ_def split: prod.splits option.splits)

lemma script_fs:
  "fs (fst (script run environ t0)) =
     (case rmtree [''target''] ''doc'' t0 of
        (t1, Some e) \<Rightarrow> t1
      | (t1, None) \<Rightarrow>
          (case run [''cargo'', ''doc'', ''--no-deps''] (child_env environ) t1 of
             Exited rc t2 \<Rightarrow> t2 | other \<Rightarrow> t1))"
  by (simp add: script_eq cargo_doc_eq boot_def os_environ_def Let_def
           split: prod.splits option.splits child.splits)

text \<open>The removal on the concrete worlds.\<close>

lemma rmtree_tree_with_doc: "rmtree [''target''] ''doc'' tree_with_doc = (tree_cleaned, None)"
  by (simp add: tree_with_doc_def tree_cleaned_def)

lemma rmtree_tree_without_doc:
  "rmtree [''target''] ''doc'' tree_without_doc = (tree_without_doc, Some FileNotFoundError)"
  by (simp add: tree_without_doc_def)

lemma rmtree_tree_doc_is_file:
  "rmtree [''target''] ''doc'' tree_doc_is_file = (tree_doc_is_file, Some NotADirectoryError)"
  by (simp add: tree_doc_is_file_def)

lemma rmtree_tree_doc_is_link:
  "rmtree [''target''] ''doc'' tree_doc_is_link = (tree_doc_is_link, Some SymlinkError)"
  by (simp add: tree_doc_is_link_def)


section \<open>The claims\<close>

text \<open>
  C1. Whenever the script calls the external command, the environment it hands over
  has \<^verbatim>\<open>RUSTDOCFLAGS\<close> set to exactly \<^verbatim>\<open>--html-in-header ./katex.html\<close>, whether
  the parent had the variable or not, and every other variable has the value (or the
  absence) it has in the environment of the parent.
\<close>

theorem child_environment:
  assumes "CheckCall args env t \<in> set (trace (fst (script run environ t0)))"
  shows "env ''RUSTDOCFLAGS'' = Some ''--html-in-header ./katex.html'' \<and>
         (\<forall>k. k \<noteq> ''RUSTDOCFLAGS'' \<longrightarrow> env k = environ k)"
  using assms
  by (auto simp: script_trace child_env_def split: prod.splits option.splits child.splits)

theorem child_environment_witness:
  "CheckCall [''cargo'', ''doc'', ''--no-deps''] (child_env some_environ) tree_cleaned
     \<in> set (trace (fst (script cargo_ok some_environ tree_with_doc))) \<and>
   child_env some_environ ''RUSTDOCFLAGS'' = Some ''--html-in-header ./katex.html'' \<and>
   some_environ ''RUSTDOCFLAGS'' = Some ''-D warnings'' \<and>
   child_env some_environ ''HOME'' = some_environ ''HOME'' \<and>
   child_env some_environ ''PATH'' = some_environ ''PATH''"
proof -
  have called: "CheckCall [''cargo'', ''doc'', ''--no-deps''] (child_env some_environ) tree_cleaned
     \<in> set (trace (fst (script cargo_ok some_environ tree_with_doc)))"
    by (simp add: script_trace rmtree_tree_with_doc)
  from child_environment [OF called] called show ?thesis
    by (simp add: some_environ_def)
qed

text \<open>
  C2. When \<^verbatim>\<open>target/doc\<close> does not exist at the start (the path does not resolve:
  a component is missing, is not a directory or may not be searched, or a link at
  its end dangles), the script ends with the uncaught error of the removal, which is
  the error of the lookup and \<^verbatim>\<open>FileNotFoundError\<close> for a dangling link, and with
  exit status 1, having called \<^verbatim>\<open>rmtree\<close> and nothing else: no call of the
  external command is in the trace, and the file tree and the dictionaries are as
  they were.
\<close>

theorem missing_doc_dir_fails:
  assumes "\<not> path_exists t0 [''target'', ''doc'']"
  shows "script run environ t0 =
           ((boot environ t0)\<lparr>trace := [Rmtree [''target'', ''doc'']]\<rparr>,
            Raised (case lstat t0 [''target'', ''doc''] of
                      Inl e \<Rightarrow> e | Inr n \<Rightarrow> FileNotFoundError)) \<and>
         exit_status (snd (script run environ t0)) = Some 1 \<and>
         (\<forall>ev \<in> set (trace (fst (script run environ t0))). \<not> is_check_call ev)"
proof (cases "lstat t0 [''target'', ''doc'']")
  case (Inl e)
  then have "rmtree [''target''] ''doc'' t0 = (t0, Some e)"
    using rmtree_lstat_error [of t0 "[''target'']" "''doc''" e] by simp
  with Inl show ?thesis
    by (simp add: script_eq boot_def)
next
  case (Inr n)
  with assms have dangling: "follow n = None"
    by (simp add: path_exists_def)
  then obtain l where n: "n = Symlink l"
    by (cases n) simp_all
  with Inr dangling have "rmtree [''target''] ''doc'' t0 = (t0, Some FileNotFoundError)"
    using rmtree_link [of t0 "[''target'']" "''doc''" l] by simp
  with Inr show ?thesis
    by (simp add: script_eq boot_def)
qed

theorem missing_doc_dir_fails_witness:
  "\<not> path_exists tree_without_doc [''target'', ''doc''] \<and>
   \<not> path_exists tree_target_is_file [''target'', ''doc''] \<and>
   \<not> path_exists tree_doc_dangling [''target'', ''doc''] \<and>
   script cargo_ok some_environ tree_without_doc =
     ((boot some_environ tree_without_doc)\<lparr>trace := [Rmtree [''target'', ''doc'']]\<rparr>,
      Raised FileNotFoundError) \<and>
   script cargo_ok some_environ tree_target_is_file =
     ((boot some_environ tree_target_is_file)\<lparr>trace := [Rmtree [''target'', ''doc'']]\<rparr>,
      Raised NotADirectoryError) \<and>
   script cargo_ok some_environ tree_doc_dangling =
     ((boot some_environ tree_doc_dangling)\<lparr>trace := [Rmtree [''target'', ''doc'']]\<rparr>,
      Raised FileNotFoundError) \<and>
   exit_status (snd (script cargo_ok some_environ tree_without_doc)) = Some 1 \<and>
   trace (fst (script cargo_ok some_environ tree_without_doc)) = [Rmtree [''target'', ''doc'']]"
proof -
  have missing: "\<not> path_exists tree_without_doc [''target'', ''doc'']"
    by (simp add: path_exists_def tree_without_doc_def)
  have not_dir: "\<not> path_exists tree_target_is_file [''target'', ''doc'']"
    by (simp add: path_exists_def tree_target_is_file_def)
  have dangling: "\<not> path_exists tree_doc_dangling [''target'', ''doc'']"
    by (simp add: path_exists_def tree_doc_dangling_def)
  have "lstat tree_without_doc [''target'', ''doc''] = Inl FileNotFoundError"
    by (simp add: tree_without_doc_def)
  moreover have "lstat tree_target_is_file [''target'', ''doc''] = Inl NotADirectoryError"
    by (simp add: tree_target_is_file_def)
  moreover have "lstat tree_doc_dangling [''target'', ''doc''] = Inr (Symlink None)"
    by (simp add: tree_doc_dangling_def)
  ultimately show ?thesis
    using missing_doc_dir_fails [OF missing, of cargo_ok some_environ]
          missing_doc_dir_fails [OF not_dir, of cargo_ok some_environ]
          missing_doc_dir_fails [OF dangling, of cargo_ok some_environ]
          missing not_dir dangling
    by simp
qed

text \<open>
  C3. The exit status of the script is 0 exactly when the removal returns and the
  external command, run on the tree the removal leaves, exits with return code 0.
  When the child exits with a return code other than 0, the script ends with the
  uncaught \<^verbatim>\<open>CalledProcessError\<close> of that code and exit status 1. The trace of a
  run holds at most one call of the external command.
\<close>

theorem exit_status_zero_iff:
  "(exit_status (snd (script run environ t0)) = Some 0 \<longleftrightarrow>
      snd (clean_dir (boot environ t0)) = Returned \<and>
      (\<exists>t2. run [''cargo'', ''doc'', ''--no-deps''] (child_env environ)
               (fs (fst (clean_dir (boot environ t0)))) = Exited 0 t2)) \<and>
   (\<forall>rc. ChildExit rc \<in> set (trace (fst (script run environ t0))) \<and> rc \<noteq> 0 \<longrightarrow>
      snd (script run environ t0) = Raised (CalledProcessError rc) \<and>
      exit_status (snd (script run environ t0)) = Some 1) \<and>
   length (filter is_check_call (trace (fst (script run environ t0)))) \<le> 1"
  by (auto simp: script_trace script_flow clean_dir_boot
           split: prod.splits option.splits child.splits if_splits)

theorem exit_status_zero_iff_witness:
  "exit_status (snd (script cargo_ok some_environ tree_with_doc)) = Some 0 \<and>
   ChildExit 101 \<in> set (trace (fst (script cargo_failing some_environ tree_with_doc))) \<and>
   snd (script cargo_failing some_environ tree_with_doc) = Raised (CalledProcessError 101) \<and>
   exit_status (snd (script cargo_failing some_environ tree_with_doc)) = Some 1 \<and>
   exit_status (snd (script cargo_ok some_environ tree_without_doc)) = Some 1 \<and>
   exit_status (snd (script cargo_hanging some_environ tree_with_doc)) = None"
proof -
  have exited: "ChildExit 101 \<in> set (trace (fst (script cargo_failing some_environ tree_with_doc)))"
    by (simp add: script_trace rmtree_tree_with_doc cargo_failing_def)
  have ok: "exit_status (snd (script cargo_ok some_environ tree_with_doc)) = Some 0"
    using exit_status_zero_iff [of cargo_ok some_environ tree_with_doc]
    by (simp add: clean_dir_boot rmtree_tree_with_doc cargo_ok_def)
  have missing: "exit_status (snd (script cargo_ok some_environ tree_without_doc)) = Some 1"
    by (simp add: script_flow rmtree_tree_without_doc)
  have hanging: "exit_status (snd (script cargo_hanging some_environ tree_with_doc)) = None"
    by (simp add: script_flow rmtree_tree_with_doc cargo_hanging_def)
  from exit_status_zero_iff [of cargo_failing some_environ tree_with_doc] exited ok missing hanging
  show ?thesis by auto
qed

text \<open>
  C4. The first event of every run is the call of \<^verbatim>\<open>rmtree\<close> on
  \<^verbatim>\<open>target/doc\<close>, whatever the starting state. A call of the external command
  stands at a later position of the trace, and then the removal has returned: the
  tree the command is started on is the one the removal left, where
  \<^verbatim>\<open>target/doc\<close> does not resolve.
\<close>

theorem cleaner_before_invoker:
  "(\<exists>rest. trace (fst (script run environ t0)) = Rmtree [''target'', ''doc''] # rest) \<and>
   (\<forall>i args env t. i < length (trace (fst (script run environ t0))) \<and>
        trace (fst (script run environ t0)) ! i = CheckCall args env t \<longrightarrow>
      0 < i \<and>
      trace (fst (script run environ t0)) ! 0 = Rmtree [''target'', ''doc''] \<and>
      clean_dir (boot environ t0) =
        ((boot environ t0)\<lparr>fs := t, trace := [Rmtree [''target'', ''doc'']]\<rparr>, Returned) \<and>
      lstat t [''target'', ''doc''] = Inl FileNotFoundError)"
proof (cases "rmtree [''target''] ''doc'' t0")
  case (Pair t1 r)
  show ?thesis
  proof (cases r)
    case None
    with Pair have gone: "lstat t1 [''target'', ''doc''] = Inl FileNotFoundError"
      using rmtree_gone [of "[''target'']" "''doc''" t0 t1 "[]"] by simp
    show ?thesis
      using Pair None gone
      by (auto simp: script_trace clean_dir_boot nth_Cons split: child.splits nat.splits)
  next
    case (Some e)
    with Pair show ?thesis
      by (auto simp: script_trace)
  qed
qed

theorem cleaner_before_invoker_witness:
  "(1::nat) < length (trace (fst (script cargo_ok some_environ tree_with_doc))) \<and>
   trace (fst (script cargo_ok some_environ tree_with_doc)) ! 1 =
     CheckCall [''cargo'', ''doc'', ''--no-deps''] (child_env some_environ) tree_cleaned \<and>
   trace (fst (script cargo_ok some_environ tree_with_doc)) ! 0 = Rmtree [''target'', ''doc''] \<and>
   clean_dir (boot some_environ tree_with_doc) =
     ((boot some_environ tree_with_doc)\<lparr>fs := tree_cleaned, trace := [Rmtree [''target'', ''doc'']]\<rparr>,
      Returned) \<and>
   lstat tree_cleaned [''target'', ''doc''] = Inl FileNotFoundError"
proof -
  have tr: "trace (fst (script cargo_ok some_environ tree_with_doc)) =
      [Rmtree [''target'', ''doc''],
       CheckCall [''cargo'', ''doc'', ''--no-deps''] (child_env some_environ) tree_cleaned,
       ChildExit 0]"
    by (simp add: script_trace rmtree_tree_with_doc cargo_ok_def)
  have pos: "(1::nat) < length (trace (fst (script cargo_ok some_environ tree_with_doc))) \<and>
     trace (fst (script cargo_ok some_environ tree_with_doc)) ! 1 =
       CheckCall [''cargo'', ''doc'', ''--no-deps''] (child_env some_environ) tree_cleaned"
    by (simp add: tr)
  from cleaner_before_invoker [of cargo_ok some_environ tree_with_doc] pos show ?thesis
    by blast
qed

text \<open>
  C5. When \<^verbatim>\<open>target/doc\<close> is a directory and \<^verbatim>\<open>clean_dir\<close> returns, the path
  \<^verbatim>\<open>target/doc\<close> no longer resolves, no path below it resolves either, and the
  loop over the entries of the directory has removed every one of them.
\<close>

theorem clean_dir_removes:
  assumes "lstat (fs w) [''target'', ''doc''] = Inr (Dir a es)"
    and "clean_dir w = (w', Returned)"
  shows "lstat (fs w') [''target'', ''doc''] = Inl FileNotFoundError \<and>
         (\<forall>qs. lstat (fs w') (''target'' # ''doc'' # qs) = Inl FileNotFoundError) \<and>
         rmtree_entries es = ([], None)"
proof -
  obtain t r where rm: "rmtree [''target''] ''doc'' (fs w) = (t, r)"
    by (cases "rmtree [''target''] ''doc'' (fs w)")
  with assms(2) have r: "r = None" and t: "fs w' = t"
    by (auto simp: clean_dir_eq split: option.splits)
  have gone: "lstat t (''target'' # ''doc'' # qs) = Inl FileNotFoundError" for qs
    using rmtree_gone [of "[''target'']" "''doc''" "fs w" t qs] rm r by simp
  have "snd (rmtree [''target''] ''doc'' (fs w)) =
          (if \<not> a then Some PermissionError else snd (rmtree_entries es))"
    using rmtree_dir [of "fs w" "[''target'']" "''doc''" a es] assms(1) by simp
  with rm r have "snd (rmtree_entries es) = None"
    by (simp split: if_splits)
  then have "rmtree_entries es = ([], None)"
    using rmtree_entries_done [of es "fst (rmtree_entries es)"]
    by (cases "rmtree_entries es") simp
  with gone t show ?thesis by simp
qed

theorem clean_dir_removes_witness:
  "lstat (fs (boot some_environ tree_with_doc)) [''target'', ''doc''] =
     Inr (Dir True [(''index.html'', File ''old''),
                    (''src'', Dir True [(''lib.rs.html'', File ''old'')])]) \<and>
   clean_dir (boot some_environ tree_with_doc) =
     ((boot some_environ tree_with_doc)\<lparr>fs := tree_cleaned, trace := [Rmtree [''target'', ''doc'']]\<rparr>,
      Returned) \<and>
   lstat tree_cleaned [''target'', ''doc''] = Inl FileNotFoundError \<and>
   lstat tree_cleaned [''target'', ''doc'', ''src'', ''lib.rs.html''] = Inl FileNotFoundError \<and>
   lstat tree_with_doc [''target'', ''doc'', ''src'', ''lib.rs.html''] = Inr (File ''old'')"
proof -
  have dir: "lstat (fs (boot some_environ tree_with_doc)) [''target'', ''doc''] =
     Inr (Dir True [(''index.html'', File ''old''),
                    (''src'', Dir True [(''lib.rs.html'', File ''old'')])])"
    by (simp add: boot_def tree_with_doc_def)
  have ok: "clean_dir (boot some_environ tree_with_doc) =
     ((boot some_environ tree_with_doc)\<lparr>fs := tree_cleaned, trace := [Rmtree [''target'', ''doc'']]\<rparr>,
      Returned)"
    by (simp add: clean_dir_boot rmtree_tree_with_doc)
  have before: "lstat tree_with_doc [''target'', ''doc'', ''src'', ''lib.rs.html''] = Inr (File ''old'')"
    by (simp add: tree_with_doc_def)
  from clean_dir_removes [OF dir ok] dir ok before show ?thesis
    by simp
qed

text \<open>
  C6. The calls of the external command in the trace of a run are none when the
  removal raises, and otherwise exactly one: \<^verbatim>\<open>cargo doc --no-deps\<close> with the
  modified environment, on the tree the removal left. The call is synchronous: when
  the child exits, its exit is the next and last event, the script goes on from the
  tree the child left and does not end before; when the child never exits, the
  script never ends; when no process starts, the error is raised.
\<close>

theorem only_cargo_doc_invoked:
  "filter is_check_call (trace (fst (script run environ t0))) =
     (if snd (clean_dir (boot environ t0)) = Returned
      then [CheckCall [''cargo'', ''doc'', ''--no-deps''] (child_env environ)
              (fs (fst (clean_dir (boot environ t0))))]
      else []) \<and>
   (\<forall>args env t. CheckCall args env t \<in> set (trace (fst (script run environ t0))) \<longrightarrow>
      (case run args env t of
         Exited rc t2 \<Rightarrow>
           trace (fst (script run environ t0)) =
             [Rmtree [''target'', ''doc''], CheckCall args env t, ChildExit rc] \<and>
           fs (fst (script run environ t0)) = t2 \<and>
           snd (script run environ t0) \<noteq> Blocked
       | Hangs \<Rightarrow> snd (script run environ t0) = Blocked
       | NotStarted e \<Rightarrow> snd (script run environ t0) = Raised e))"
  by (auto simp: script_trace script_flow script_fs clean_dir_boot
           split: prod.splits option.splits child.splits if_splits)

theorem only_cargo_doc_invoked_witness:
  "filter is_check_call (trace (fst (script cargo_ok some_environ tree_with_doc))) =
     [CheckCall [''cargo'', ''doc'', ''--no-deps''] (child_env some_environ) tree_cleaned] \<and>
   trace (fst (script cargo_ok some_environ tree_with_doc)) =
     [Rmtree [''target'', ''doc''],
      CheckCall [''cargo'', ''doc'', ''--no-deps''] (child_env some_environ) tree_cleaned,
      ChildExit 0] \<and>
   snd (script cargo_ok some_environ tree_with_doc) \<noteq> Blocked \<and>
   snd (script cargo_hanging some_environ tree_with_doc) = Blocked"
proof -
  have called: "CheckCall [''cargo'', ''doc'', ''--no-deps''] (child_env some_environ) tree_cleaned
      \<in> set (trace (fst (script run some_environ tree_with_doc)))" for run
    by (simp add: script_trace rmtree_tree_with_doc)
  have cleaned: "clean_dir (boot some_environ tree_with_doc) =
     ((boot some_environ tree_with_doc)\<lparr>fs := tree_cleaned, trace := [Rmtree [''target'', ''doc'']]\<rparr>,
      Returned)"
    by (simp add: clean_dir_boot rmtree_tree_with_doc)
  from only_cargo_doc_invoked [of cargo_ok some_environ tree_with_doc]
       only_cargo_doc_invoked [of cargo_hanging some_environ tree_with_doc]
       called [of cargo_ok] called [of cargo_hanging] cleaned
  show ?thesis
    by (auto simp: cargo_ok_def cargo_hanging_def)
qed

text \<open>
  C7. In every run, the file tree at the moment the external command is called
  satisfies the invariant of the data model: \<^verbatim>\<open>target/doc\<close> does not exist or is
  empty. It is the first of the two that holds: the path does not exist.
\<close>

theorem doc_dir_invariant:
  assumes "CheckCall args env t \<in> set (trace (fst (script run environ t0)))"
  shows "doc_absent_or_empty t \<and> lstat t [''target'', ''doc''] = Inl FileNotFoundError"
proof (cases "rmtree [''target''] ''doc'' t0")
  case (Pair t1 r)
  with assms have r: "r = None" and t: "t = t1"
    by (auto simp: script_trace split: option.splits child.splits)
  with Pair have "lstat t [''target'', ''doc''] = Inl FileNotFoundError"
    using rmtree_gone [of "[''target'']" "''doc''" t0 t1 "[]"] by simp
  then show ?thesis
    by (simp add: doc_absent_or_empty_def)
qed

theorem doc_dir_invariant_witness:
  "CheckCall [''cargo'', ''doc'', ''--no-deps''] (child_env some_environ) tree_cleaned
     \<in> set (trace (fst (script cargo_failing some_environ tree_with_doc))) \<and>
   doc_absent_or_empty tree_cleaned \<and>
   \<not> doc_absent_or_empty tree_with_doc"
proof -
  have called: "CheckCall [''cargo'', ''doc'', ''--no-deps''] (child_env some_environ) tree_cleaned
     \<in> set (trace (fst (script cargo_failing some_environ tree_with_doc)))"
    by (simp add: script_trace rmtree_tree_with_doc)
  have before: "\<not> doc_absent_or_empty tree_with_doc"
    by (simp add: doc_absent_or_empty_def tree_with_doc_def)
  from doc_dir_invariant [OF called] called before show ?thesis
    by simp
qed

text \<open>
  C8. \<^verbatim>\<open>cargo_doc\<close> writes to one dictionary only, the fresh copy: every other
  object of the store is as before, and since \<^verbatim>\<open>os.environ\<close> is an object that
  exists already, it is as before, while the copy holds the override. After a whole
  run of the script, \<^verbatim>\<open>os.environ\<close> is the environment the process started with.
\<close>

theorem parent_environment_unchanged:
  "(os_environ < fresh w \<longrightarrow>
      store (fst (cargo_doc run w)) os_environ = store w os_environ \<and>
      store (fst (cargo_doc run w)) (fresh w) = child_env (store w os_environ)) \<and>
   (\<forall>r. r \<noteq> fresh w \<longrightarrow> store (fst (cargo_doc run w)) r = store w r) \<and>
   store (fst (script run environ t0)) os_environ = environ"
  by (auto simp: cargo_doc_store script_eq boot_def os_environ_def
           split: prod.splits option.splits)

theorem parent_environment_unchanged_witness:
  "os_environ < fresh (boot some_environ tree_cleaned) \<and>
   store (fst (cargo_doc cargo_ok (boot some_environ tree_cleaned))) os_environ = some_environ \<and>
   store (fst (cargo_doc cargo_ok (boot some_environ tree_cleaned))) os_environ ''RUSTDOCFLAGS'' =
     Some ''-D warnings'' \<and>
   store (fst (cargo_doc cargo_ok (boot some_environ tree_cleaned)))
       (fresh (boot some_environ tree_cleaned)) ''RUSTDOCFLAGS'' =
     Some ''--html-in-header ./katex.html''"
proof -
  have allocated: "os_environ < fresh (boot some_environ tree_cleaned)"
    by (simp add: boot_def)
  have parent: "store (boot some_environ tree_cleaned) os_environ = some_environ"
    by (simp add: boot_def)
  from parent_environment_unchanged [of "boot some_environ tree_cleaned" cargo_ok] allocated parent
  show ?thesis
    by (simp add: child_env_def some_environ_def)
qed

text \<open>
  C9. When \<^verbatim>\<open>target/doc\<close> is a regular file or a symbolic link (to a file or to
  anything else), the script ends with the uncaught error of the removal and exit
  status 1, having called \<^verbatim>\<open>rmtree\<close> and nothing else: no call of the external
  command is in the trace, and the file tree is as it was.
\<close>

theorem non_directory_fails:
  assumes "lstat t0 [''target'', ''doc''] = Inr n"
    and "n = File c \<or> n = Symlink l"
  shows "(\<exists>e. script run environ t0 =
            ((boot environ t0)\<lparr>trace := [Rmtree [''target'', ''doc'']]\<rparr>, Raised e)) \<and>
         exit_status (snd (script run environ t0)) = Some 1 \<and>
         (\<forall>ev \<in> set (trace (fst (script run environ t0))). \<not> is_check_call ev)"
proof -
  have "\<exists>e. rmtree [''target''] ''doc'' t0 = (t0, Some e)"
    using assms rmtree_file [of t0 "[''target'']" "''doc''" c]
      rmtree_link [of t0 "[''target'']" "''doc''" l]
    by auto
  then show ?thesis
    by (auto simp: script_eq boot_def)
qed

theorem non_directory_fails_witness:
  "lstat tree_doc_is_file [''target'', ''doc''] = Inr (File ''not a directory'') \<and>
   lstat tree_doc_is_link [''target'', ''doc''] = Inr (Symlink (Some (File ''text''))) \<and>
   script cargo_ok some_environ tree_doc_is_file =
     ((boot some_environ tree_doc_is_file)\<lparr>trace := [Rmtree [''target'', ''doc'']]\<rparr>,
      Raised NotADirectoryError) \<and>
   script cargo_ok some_environ tree_doc_is_link =
     ((boot some_environ tree_doc_is_link)\<lparr>trace := [Rmtree [''target'', ''doc'']]\<rparr>,
      Raised SymlinkError) \<and>
   exit_status (snd (script cargo_ok some_environ tree_doc_is_file)) = Some 1 \<and>
   exit_status (snd (script cargo_ok some_environ tree_doc_is_link)) = Some 1"
proof -
  have is_file: "lstat tree_doc_is_file [''target'', ''doc''] = Inr (File ''not a directory'')"
    by (simp add: tree_doc_is_file_def)
  have is_link: "lstat tree_doc_is_link [''target'', ''doc''] = Inr (Symlink (Some (File ''text'')))"
    by (simp add: tree_doc_is_link_def)
  have "exit_status (snd (script cargo_ok some_environ tree_doc_is_file)) = Some 1"
    using non_directory_fails [OF is_file, of "''not a directory''" None cargo_ok some_environ]
    by simp
  moreover have "exit_status (snd (script cargo_ok some_environ tree_doc_is_link)) = Some 1"
    using non_directory_fails [OF is_link, of "''text''" "Some (File ''text'')" cargo_ok some_environ]
    by simp
  moreover have "script cargo_ok some_environ tree_doc_is_file =
     ((boot some_environ tree_doc_is_file)\<lparr>trace := [Rmtree [''target'', ''doc'']]\<rparr>,
      Raised NotADirectoryError)"
    by (simp add: script_eq rmtree_tree_doc_is_file boot_def)
  moreover have "script cargo_ok some_environ tree_doc_is_link =
     ((boot some_environ tree_doc_is_link)\<lparr>trace := [Rmtree [''target'', ''doc'']]\<rparr>,
      Raised SymlinkError)"
    by (simp add: script_eq rmtree_tree_doc_is_link boot_def)
  ultimately show ?thesis
    using is_file is_link by simp
qed



end
